theory Spec2Isabelle
  imports Complex_Main "HOL-Library.Char_ord" "HOL-Library.List_Lexorder"
begin

section \<open>Shark mortality estimation: the three functions of \<open>mortality.py\<close>\<close>

text \<open>
  The module holds one constant and three functions over pandas data frames:
  \<open>catch_count\<close>, \<open>p_fate\<close> and \<open>m_fate\<close>. A data frame is modelled as the list of
  its rows, a row as a record of the columns the functions read. Labels are strings,
  ordered as Python orders them (lexicographically by character code).

  Numbers. Sample sizes are Python integers (\<open>int\<close>). Weights are floating point in
  the program; the model computes with exact rationals, and adds the three special
  values that the program's divisions by zero produce (\<open>inf\<close>, \<open>-inf\<close>, \<open>nan\<close>).
  Rounding of finite results is not modelled.
\<close>

subsection \<open>Numeric values\<close>

datatype fval = Fin rat | PInf | NInf | NaN

datatype error = KeyError | IndexError | TypeError | ValueError | OverflowError

text \<open>
  True division of an integer by an integer, as pandas evaluates \<open>series / scalar\<close>:
  no exception, a zero divisor gives \<open>inf\<close>, \<open>-inf\<close> or \<open>nan\<close>.
\<close>

definition fdiv :: "int \<Rightarrow> int \<Rightarrow> fval" where
  "fdiv s t =
     (if t \<noteq> 0 then Fin (of_int s / of_int t)
      else if 0 < s then PInf
      else if s < 0 then NInf
      else NaN)"

fun fadd :: "fval \<Rightarrow> fval \<Rightarrow> fval" where
  "fadd (Fin a) (Fin b) = Fin (a + b)"
| "fadd NaN _ = NaN"
| "fadd _ NaN = NaN"
| "fadd PInf NInf = NaN"
| "fadd NInf PInf = NaN"
| "fadd PInf _ = PInf"
| "fadd _ PInf = PInf"
| "fadd NInf _ = NInf"
| "fadd _ NInf = NInf"

text \<open>\<open>Series.sum()\<close> with its default \<open>skipna=True\<close>: \<open>nan\<close> entries are left out,
  and the sum of nothing is \<open>0\<close>.\<close>

definition series_sum :: "fval list \<Rightarrow> fval" where
  "series_sum vs = foldr fadd (filter (\<lambda>v. v \<noteq> NaN) vs) (Fin 0)"

text \<open>Python's \<open>int(x)\<close> on a finite number truncates towards zero.\<close>

definition py_int :: "rat \<Rightarrow> int" where
  "py_int x = (if 0 \<le> x then \<lfloor>x\<rfloor> else \<lceil>x\<rceil>)"

text \<open>
  \<open>int(x / w)\<close>: the division never raises on the program's numpy scalars; for
  \<open>w = 0\<close> it yields \<open>nan\<close> (when \<open>x = 0\<close>) or an infinity, and \<open>int\<close> then raises
  \<open>ValueError\<close> or \<open>OverflowError\<close>.
\<close>

definition int_of_quotient :: "rat \<Rightarrow> rat \<Rightarrow> error + int" where
  "int_of_quotient x w =
     (if w = 0 then (if x = 0 then Inl ValueError else Inl OverflowError)
      else Inr (py_int (x / w)))"

subsection \<open>Tables\<close>

record catch_row =
  catch_type :: string
  sum_col :: rat

record sample_row =
  family :: string
  sample_size :: int

record fate_row = sample_row +
  rfmo :: string
  fate_type :: string

record mortality_row = sample_row +
  estimate_type :: string

definition non_shark_families :: "string list" where
  "non_shark_families =
     [''Dasyatidae'', ''Mobulidae'', ''Myliobatidae'', ''Rajidae'', ''Torpedinidae'']"

text \<open>\<open>df[~df.family.isin(non_shark_families)]\<close>\<close>

definition shark_rows :: "('a sample_row_scheme) list \<Rightarrow> ('a sample_row_scheme) list" where
  "shark_rows df = filter (\<lambda>r. family r \<notin> set non_shark_families) df"

text \<open>
  \<open>df.groupby(key)[val].sum()\<close>: one entry per distinct key, keys in ascending
  order, each with the sum of its rows.
\<close>

definition groupby_sum :: "('r \<Rightarrow> string) \<Rightarrow> ('r \<Rightarrow> int) \<Rightarrow> 'r list \<Rightarrow> (string \<times> int) list" where
  "groupby_sum key val df =
     map (\<lambda>k. (k, sum_list (map val (filter (\<lambda>r. key r = k) df))))
       (sort (remdups (map key df)))"

text \<open>\<open>g / g.sum()\<close>: every group sum divided by the grand total.\<close>

definition normalise :: "(string \<times> int) list \<Rightarrow> (string \<times> fval) list" where
  "normalise g = (let total = sum_list (map snd g) in map (\<lambda>(k, s). (k, fdiv s total)) g)"

text \<open>\<open>s.iloc[-2:]\<close>: the last two entries, or all of them when there are fewer.\<close>

definition iloc_last2 :: "'a list \<Rightarrow> 'a list" where
  "iloc_last2 xs = drop (length xs - 2) xs"

text \<open>\<open>s.loc[k]\<close> on a series with unique labels: \<open>KeyError\<close> when the label is absent.\<close>

definition loc :: "(string \<times> fval) list \<Rightarrow> string \<Rightarrow> error + fval" where
  "loc s k = (case map_of s k of None \<Rightarrow> Inl KeyError | Some p \<Rightarrow> Inr p)"

text \<open>\<open>s[s.index == k].values[0]\<close>: \<open>IndexError\<close> when the selection is empty.\<close>

definition first_where :: "(string \<times> fval) list \<Rightarrow> string \<Rightarrow> error + fval" where
  "first_where s k =
     (case filter (\<lambda>(k', p). k' = k) s of [] \<Rightarrow> Inl IndexError | (k', p) # _ \<Rightarrow> Inr p)"

subsection \<open>The three functions\<close>

definition catch_count :: "catch_row list \<Rightarrow> string \<Rightarrow> rat \<Rightarrow> error + int" where
  "catch_count df fate med_weight =
     (let total_catch =
        (if fate = ''retained''
         then sum_list (map sum_col (filter (\<lambda>r. catch_type r = ''Landings'') df))
         else sum_list (map sum_col (filter (\<lambda>r. catch_type r = ''Discards'') df)))
      in int_of_quotient (total_catch * 1000) med_weight)"

definition fate_non_rfmo_shark :: "fate_row list \<Rightarrow> string \<Rightarrow> fate_row list" where
  "fate_non_rfmo_shark fate_df domain =
     (let fate_shark = shark_rows fate_df
      in if domain = ''coastal''
         then filter (\<lambda>r. rfmo r = ''Non-RFMO'') fate_shark
         else filter (\<lambda>r. rfmo r \<noteq> ''Non-RFMO'') fate_shark)"

definition fate_probs :: "fate_row list \<Rightarrow> string \<Rightarrow> (string \<times> fval) list" where
  "fate_probs fate_df domain =
     normalise (groupby_sum fate_type sample_size (fate_non_rfmo_shark fate_df domain))"

definition p_fate :: "fate_row list \<Rightarrow> string \<Rightarrow> string \<Rightarrow> error + fval" where
  "p_fate fate_df fate domain =
     (let probs = fate_probs fate_df domain
      in if fate = ''retained'' \<and> domain = ''coastal''
         then Inr (series_sum (map snd (iloc_last2 probs)))
         else if fate = ''retained'' \<and> domain = ''offshore''
         then loc probs ''retained_whole''
         else first_where probs fate)"

definition post_release_probs :: "mortality_row list \<Rightarrow> (string \<times> fval) list" where
  "post_release_probs mortality_df =
     normalise (groupby_sum estimate_type sample_size (shark_rows mortality_df))"

definition m_fate :: "mortality_row list \<Rightarrow> string \<Rightarrow> string \<Rightarrow> error + fval" where
  "m_fate mortality_df fate domain =
     (let probs = post_release_probs mortality_df
      in if fate = ''discard_alive''
         then first_where probs ''post-release mortality''
         else if fate \<in> set [''discard_dead'', ''retained'']
         then Inr (Fin 1)
         else Inl TypeError)"

subsection \<open>Reference quantities and example tables\<close>



text \<open>
  The sample size of one group, the groups of a table in ascending order of their
  label, and the share of one group in the grand total of the table.
\<close>

definition group_total :: "('r \<Rightarrow> string) \<Rightarrow> ('r \<Rightarrow> int) \<Rightarrow> 'r list \<Rightarrow> string \<Rightarrow> int" where
  "group_total key val df k = (\<Sum>r\<leftarrow>df. if key r = k then val r else 0)"

definition group_keys :: "('r \<Rightarrow> string) \<Rightarrow> 'r list \<Rightarrow> string list" where
  "group_keys key df = sorted_list_of_set (key ` set df)"

definition prob_mass :: "('r \<Rightarrow> string) \<Rightarrow> ('r \<Rightarrow> int) \<Rightarrow> 'r list \<Rightarrow> string \<Rightarrow> fval" where
  "prob_mass key val df k = fdiv (group_total key val df k) (sum_list (map val df))"


text \<open>Example tables.\<close>

definition fate_row_of :: "string \<Rightarrow> string \<Rightarrow> string \<Rightarrow> int \<Rightarrow> fate_row" where
  "fate_row_of f r t n = \<lparr>family = f, sample_size = n, rfmo = r, fate_type = t\<rparr>"

definition catch_example :: "catch_row list" where
  "catch_example =
     [\<lparr>catch_type = ''Landings'', sum_col = 10\<rparr>, \<lparr>catch_type = ''Discards'', sum_col = 5 / 2\<rparr>]"

definition mortality_example :: "mortality_row list" where
  "mortality_example =
     [\<lparr>family = ''Lamnidae'', sample_size = 15, estimate_type = ''post-release mortality''\<rparr>,
      \<lparr>family = ''Lamnidae'', sample_size = 85, estimate_type = ''other''\<rparr>]"

definition fate_example :: "fate_row list" where
  "fate_example =
     [fate_row_of ''Lamnidae'' ''Non-RFMO'' ''retained_whole'' 40,
      fate_row_of ''Lamnidae'' ''Non-RFMO'' ''discard_alive'' 30,
      fate_row_of ''Lamnidae'' ''Non-RFMO'' ''discard_dead'' 20,
      fate_row_of ''Lamnidae'' ''Non-RFMO'' ''retained_damaged'' 10,
      fate_row_of ''Lamnidae'' ''ICCAT'' ''discard_alive'' 1,
      fate_row_of ''Lamnidae'' ''ICCAT'' ''retained_whole'' 3]"


definition two_fates :: "fate_row list" where
  "two_fates =
     [fate_row_of ''Lamnidae'' ''Non-RFMO'' ''discard_alive'' 1,
      fate_row_of ''Lamnidae'' ''Non-RFMO'' ''discard_dead'' 1]"

definition one_group :: "fate_row list" where
  "one_group =
     [fate_row_of ''Lamnidae'' ''Non-RFMO'' ''retained_whole'' 4,
      fate_row_of ''Lamnidae'' ''Non-RFMO'' ''retained_whole'' 3,
      fate_row_of ''Lamnidae'' ''ICCAT'' ''discard_dead'' 5]"

definition zero_fates :: "fate_row list" where
  "zero_fates =
     [fate_row_of ''Lamnidae'' ''Non-RFMO'' ''discard_alive'' 0,
      fate_row_of ''Lamnidae'' ''ICCAT'' ''retained_whole'' 0]"

definition zero_mortality :: "mortality_row list" where
  "zero_mortality =
     [\<lparr>family = ''Lamnidae'', sample_size = 0, estimate_type = ''post-release mortality''\<rparr>]"

lemmas table_eval_defs =
  p_fate_def m_fate_def fate_probs_def post_release_probs_def
  fate_non_rfmo_shark_def shark_rows_def non_shark_families_def
  groupby_sum_def normalise_def iloc_last2_def series_sum_def fdiv_def loc_def first_where_def
  fate_row_of_def

section \<open>Properties of \<open>catch_count\<close>\<close>





text \<open>
  Claim C9. With fate \<open>retained\<close> the count is computed from the \<open>Landings\<close> rows
  alone, with any other fate string (none is rejected) from the \<open>Discards\<close> rows
  alone: the result is the quotient of that total, and two tables with the same
  rows of that catch type give the same result.
\<close>

theorem catch_count_disposition:
  "catch_count df ''retained'' w =
     int_of_quotient ((\<Sum>r\<leftarrow>df. if catch_type r = ''Landings'' then sum_col r else 0) * 1000) w
   \<and> (fate \<noteq> ''retained'' \<longrightarrow>
        catch_count df fate w =
          int_of_quotient ((\<Sum>r\<leftarrow>df. if catch_type r = ''Discards'' then sum_col r else 0) * 1000) w)
   \<and> (filter (\<lambda>r. catch_type r = ''Landings'') df = filter (\<lambda>r. catch_type r = ''Landings'') df' \<longrightarrow>
        catch_count df ''retained'' w = catch_count df' ''retained'' w)
   \<and> (fate \<noteq> ''retained'' \<and>
      filter (\<lambda>r. catch_type r = ''Discards'') df = filter (\<lambda>r. catch_type r = ''Discards'') df' \<longrightarrow>
        catch_count df fate w = catch_count df' fate w)"
  by (simp add: catch_count_def sum_list_map_filter')

theorem catch_count_disposition_witness:
  "''bogus'' \<noteq> ''retained''
   \<and> filter (\<lambda>r. catch_type r = ''Discards'') catch_example
       = filter (\<lambda>r. catch_type r = ''Discards'') [\<lparr>catch_type = ''Discards'', sum_col = 5 / 2\<rparr>]
   \<and> filter (\<lambda>r. catch_type r = ''Landings'') catch_example
       = filter (\<lambda>r. catch_type r = ''Landings'') [\<lparr>catch_type = ''Landings'', sum_col = 10\<rparr>]
   \<and> catch_count catch_example ''bogus'' 25 = Inr 100
   \<and> catch_count catch_example ''bogus'' 25
       = catch_count [\<lparr>catch_type = ''Discards'', sum_col = 5 / 2\<rparr>] ''bogus'' 25
   \<and> catch_count catch_example ''retained'' 50
       = catch_count [\<lparr>catch_type = ''Landings'', sum_col = 10\<rparr>] ''retained'' 50"
  using catch_count_disposition [of catch_example 25 "''bogus''" "[\<lparr>catch_type = ''Discards'', sum_col = 5 / 2\<rparr>]"]
        catch_count_disposition [of catch_example 50 "''bogus''" "[\<lparr>catch_type = ''Landings'', sum_col = 10\<rparr>]"]
  by (simp add: catch_example_def catch_count_def int_of_quotient_def py_int_def)

section \<open>Properties of \<open>m_fate\<close> that do not depend on the table\<close>

text \<open>
  Claim C3. For the fates \<open>discard_dead\<close> and \<open>retained\<close>, \<open>m_fate\<close> returns 1
  whatever the table and the domain are.
\<close>

theorem m_fate_certain:
  "m_fate mortality_df ''discard_dead'' domain = Inr (Fin 1)
   \<and> m_fate mortality_df ''retained'' domain = Inr (Fin 1)"
  by (simp add: m_fate_def)

lemma first_where_not_TypeError: "first_where s k \<noteq> Inl TypeError"
  by (simp add: first_where_def split: list.splits prod.splits)

text \<open>
  Claim C8. A fate outside \<open>discard_alive\<close>, \<open>discard_dead\<close>, \<open>retained\<close> makes
  \<open>m_fate\<close> raise its invalid-argument error (a \<open>TypeError\<close>); for the three
  recognised fates it never raises that error.
\<close>

theorem m_fate_invalid_argument:
  "(fate \<notin> {''discard_alive'', ''discard_dead'', ''retained''} \<longrightarrow>
      m_fate mortality_df fate domain = Inl TypeError)
   \<and> (fate \<in> {''discard_alive'', ''discard_dead'', ''retained''} \<longrightarrow>
      m_fate mortality_df fate domain \<noteq> Inl TypeError)"
  by (auto simp: m_fate_def first_where_not_TypeError)

theorem m_fate_invalid_argument_witness:
  "''bogus_fate'' \<notin> {''discard_alive'', ''discard_dead'', ''retained''}
   \<and> m_fate mortality_example ''bogus_fate'' ''coastal'' = Inl TypeError
   \<and> ''discard_alive'' \<in> {''discard_alive'', ''discard_dead'', ''retained''}
   \<and> m_fate mortality_example ''discard_alive'' ''coastal'' \<noteq> Inl TypeError"
  using m_fate_invalid_argument [of "''bogus_fate''" mortality_example "''coastal''"]
        m_fate_invalid_argument [of "''discard_alive''" mortality_example "''coastal''"]
  by simp

section \<open>The grouped and normalised series\<close>

lemma group_keys_sort: "group_keys key df = sort (remdups (map key df))"
  by (simp add: group_keys_def sorted_list_of_set_sort_remdups [symmetric])

lemma set_group_keys [simp]: "set (group_keys key df) = key ` set df"
  by (simp add: group_keys_def)

lemma distinct_group_keys [simp]: "distinct (group_keys key df)"
  by (simp add: group_keys_def)


lemma groupby_sum_alt:
  "groupby_sum key val df = map (\<lambda>k. (k, group_total key val df k)) (group_keys key df)"
  by (simp add: groupby_sum_def group_keys_sort group_total_def sum_list_map_filter')

text \<open>Every row belongs to exactly one group, so the group sums add up to the column sum.\<close>

lemma sum_over_keys:
  assumes "finite K" and "key ` set df \<subseteq> K"
  shows "(\<Sum>k\<in>K. group_total key val df k) = sum_list (map val df)"
  using assms(2)
proof (induction df)
  case Nil
  then show ?case by (simp add: group_total_def)
next
  case (Cons r df)
  have "(\<Sum>k\<in>K. group_total key val (r # df) k)
        = (\<Sum>k\<in>K. (if key r = k then val r else 0)) + (\<Sum>k\<in>K. group_total key val df k)"
    by (simp add: group_total_def sum.distrib)
  also have "(\<Sum>k\<in>K. (if key r = k then val r else 0)) = val r"
    using assms(1) Cons.prems by (simp add: sum.delta)
  finally show ?case using Cons by simp
qed

lemma keys_total:
  "sum_list (map (group_total key val df) (group_keys key df)) = sum_list (map val df)"
proof -
  have "sum_list (map (group_total key val df) (group_keys key df))
        = (\<Sum>k\<in>key ` set df. group_total key val df k)"
    by (simp add: sum_list_distinct_conv_sum_set)
  also have "\<dots> = sum_list (map val df)"
    by (rule sum_over_keys) simp_all
  finally show ?thesis .
qed

lemma groupby_grand_total:
  "sum_list (map snd (groupby_sum key val df)) = sum_list (map val df)"
  by (simp add: groupby_sum_alt comp_def keys_total)

lemma normalise_groupby:
  "normalise (groupby_sum key val df) = map (\<lambda>k. (k, prob_mass key val df k)) (group_keys key df)"
  by (simp add: normalise_def groupby_grand_total prob_mass_def)
     (simp add: groupby_sum_alt)

lemma fate_probs_alt:
  "fate_probs df domain =
     map (\<lambda>k. (k, prob_mass fate_type sample_size (fate_non_rfmo_shark df domain) k))
       (group_keys fate_type (fate_non_rfmo_shark df domain))"
  by (simp add: fate_probs_def normalise_groupby)

lemma post_release_probs_alt:
  "post_release_probs df =
     map (\<lambda>k. (k, prob_mass estimate_type sample_size (shark_rows df) k))
       (group_keys estimate_type (shark_rows df))"
  by (simp add: post_release_probs_def normalise_groupby)

lemma keys_fate_probs:
  "fst ` set (fate_probs df domain) = fate_type ` set (fate_non_rfmo_shark df domain)"
  by (simp add: fate_probs_alt image_image)

lemma keys_post_release_probs:
  "fst ` set (post_release_probs df) = estimate_type ` set (shark_rows df)"
  by (simp add: post_release_probs_alt image_image)

lemma prob_mass_Fin:
  "sum_list (map val df) \<noteq> 0 \<Longrightarrow>
   prob_mass key val df k = Fin (of_int (group_total key val df k) / of_int (sum_list (map val df)))"
  by (simp add: prob_mass_def fdiv_def)

subsection \<open>Selections from a series\<close>

lemma filter_eq_distinct:
  "distinct ks \<Longrightarrow> filter (\<lambda>k'. k' = k) ks = (if k \<in> set ks then [k] else [])"
  by (induction ks) auto

lemma first_where_series:
  assumes "distinct ks"
  shows "first_where (map (\<lambda>k. (k, f k)) ks) k = (if k \<in> set ks then Inr (f k) else Inl IndexError)"
proof -
  have "filter (\<lambda>(k', p). k' = k) (map (\<lambda>k. (k, f k)) ks) = map (\<lambda>k. (k, f k)) (filter (\<lambda>k'. k' = k) ks)"
    by (simp add: filter_map comp_def)
  then show ?thesis
    using assms by (simp add: first_where_def filter_eq_distinct)
qed

lemma loc_series:
  "loc (map (\<lambda>k. (k, f k)) ks) k = (if k \<in> set ks then Inr (f k) else Inl KeyError)"
  by (simp add: loc_def map_of_map_restrict restrict_map_def)

lemma iloc_last2_map: "iloc_last2 (map f xs) = map f (iloc_last2 xs)"
  by (simp add: iloc_last2_def drop_map)

lemma iloc_last2_rev: "iloc_last2 xs = rev (take 2 (rev xs))"
  by (simp add: iloc_last2_def take_rev)

lemma iloc_last2_short: "length xs < 2 \<Longrightarrow> iloc_last2 xs = xs"
  by (simp add: iloc_last2_def)

lemma snd_iloc_last2_series:
  "map snd (iloc_last2 (map (\<lambda>k. (k, f k)) ks)) = map f (rev (take 2 (rev ks)))"
proof -
  have "map snd (iloc_last2 (map (\<lambda>k. (k, f k)) ks)) = map f (iloc_last2 ks)"
    by (simp add: iloc_last2_map comp_def)
  then show ?thesis by (simp only: iloc_last2_rev)
qed

lemma series_sum_Fin: "series_sum (map Fin qs) = Fin (sum_list qs)"
  by (induction qs) (simp_all add: series_sum_def)

lemma series_sum_one: "series_sum [Fin p] = Fin p"
  by (simp add: series_sum_def)


lemma series_sum_all_NaN: "series_sum (map (\<lambda>k. NaN) ks) = Fin 0"
  by (induction ks) (simp_all add: series_sum_def)

subsection \<open>The branches of \<open>p_fate\<close> and \<open>m_fate\<close> over the rows\<close>

lemma p_fate_retained_coastal:
  "p_fate df ''retained'' ''coastal'' =
     Inr (series_sum (map (prob_mass fate_type sample_size (fate_non_rfmo_shark df ''coastal''))
            (rev (take 2 (rev (group_keys fate_type (fate_non_rfmo_shark df ''coastal'')))))))"
  by (simp add: p_fate_def fate_probs_alt snd_iloc_last2_series)

lemma p_fate_retained_offshore:
  "p_fate df ''retained'' ''offshore'' =
     (if ''retained_whole'' \<in> fate_type ` set (fate_non_rfmo_shark df ''offshore'')
      then Inr (prob_mass fate_type sample_size (fate_non_rfmo_shark df ''offshore'') ''retained_whole'')
      else Inl KeyError)"
  by (simp add: p_fate_def fate_probs_alt loc_series)

lemma p_fate_by_name:
  "\<not> (fate = ''retained'' \<and> (domain = ''coastal'' \<or> domain = ''offshore'')) \<Longrightarrow>
   p_fate df fate domain =
     (if fate \<in> fate_type ` set (fate_non_rfmo_shark df domain)
      then Inr (prob_mass fate_type sample_size (fate_non_rfmo_shark df domain) fate)
      else Inl IndexError)"
  by (auto simp: p_fate_def fate_probs_alt first_where_series)

lemma m_fate_discard_alive:
  "m_fate df ''discard_alive'' domain =
     (if ''post-release mortality'' \<in> estimate_type ` set (shark_rows df)
      then Inr (prob_mass estimate_type sample_size (shark_rows df) ''post-release mortality'')
      else Inl IndexError)"
  by (simp add: m_fate_def post_release_probs_alt first_where_series)

section \<open>Properties of \<open>p_fate\<close> and \<open>m_fate\<close>\<close>

text \<open>
  Claim C2. \<open>p_fate\<close> selects from the normalised distribution of \<open>fate_type\<close>
  over the shark rows of the domain, groups in ascending order of their label:
  for \<open>retained\<close> and \<open>coastal\<close> it returns the sum of the shares of the last two
  groups (a sum of quotients when the grand total is not zero); for \<open>retained\<close> and
  \<open>offshore\<close> the share of the group named \<open>retained_whole\<close>; for any other fate
  the share of the group named as the fate. The last two cases need the group to be
  present.
\<close>

theorem p_fate_selection:
  "p_fate df ''retained'' ''coastal'' =
     Inr (series_sum (map (prob_mass fate_type sample_size (fate_non_rfmo_shark df ''coastal''))
            (rev (take 2 (rev (group_keys fate_type (fate_non_rfmo_shark df ''coastal'')))))))
   \<and> (sum_list (map sample_size (fate_non_rfmo_shark df ''coastal'')) \<noteq> 0 \<longrightarrow>
        p_fate df ''retained'' ''coastal'' =
          Inr (Fin (\<Sum>k\<leftarrow>rev (take 2 (rev (group_keys fate_type (fate_non_rfmo_shark df ''coastal'')))).
                 of_int (group_total fate_type sample_size (fate_non_rfmo_shark df ''coastal'') k)
                 / of_int (sum_list (map sample_size (fate_non_rfmo_shark df ''coastal''))))))
   \<and> (''retained_whole'' \<in> fate_type ` set (fate_non_rfmo_shark df ''offshore'') \<longrightarrow>
        p_fate df ''retained'' ''offshore'' =
          Inr (prob_mass fate_type sample_size (fate_non_rfmo_shark df ''offshore'') ''retained_whole''))
   \<and> (fate \<noteq> ''retained'' \<and> fate \<in> fate_type ` set (fate_non_rfmo_shark df domain) \<longrightarrow>
        p_fate df fate domain =
          Inr (prob_mass fate_type sample_size (fate_non_rfmo_shark df domain) fate))"
proof -
  let ?sel = "fate_non_rfmo_shark df ''coastal''"
  let ?last = "rev (take 2 (rev (group_keys fate_type ?sel)))"
  have a: "p_fate df ''retained'' ''coastal'' =
        Inr (series_sum (map (prob_mass fate_type sample_size ?sel) ?last))"
    by (rule p_fate_retained_coastal)
  have b: "p_fate df ''retained'' ''coastal'' =
        Inr (Fin (\<Sum>k\<leftarrow>?last. of_int (group_total fate_type sample_size ?sel k)
                 / of_int (sum_list (map sample_size ?sel))))"
    if "sum_list (map sample_size ?sel) \<noteq> 0"
  proof -
    have "map (prob_mass fate_type sample_size ?sel) ?last
          = map Fin (map (\<lambda>k. of_int (group_total fate_type sample_size ?sel k)
                 / of_int (sum_list (map sample_size ?sel))) ?last)"
      using that by (simp add: prob_mass_Fin comp_def)
    then show ?thesis
      unfolding a by (simp only: series_sum_Fin)
  qed
  have c: "p_fate df ''retained'' ''offshore'' =
          Inr (prob_mass fate_type sample_size (fate_non_rfmo_shark df ''offshore'') ''retained_whole'')"
    if "''retained_whole'' \<in> fate_type ` set (fate_non_rfmo_shark df ''offshore'')"
    using that by (simp add: p_fate_retained_offshore)
  have d: "p_fate df fate domain =
          Inr (prob_mass fate_type sample_size (fate_non_rfmo_shark df domain) fate)"
    if "fate \<noteq> ''retained''" "fate \<in> fate_type ` set (fate_non_rfmo_shark df domain)"
    using that by (simp add: p_fate_by_name)
  from a b c d show ?thesis by blast
qed

theorem p_fate_selection_witness:
  "p_fate fate_example ''retained'' ''coastal'' = Inr (Fin (1 / 2))
   \<and> p_fate fate_example ''retained'' ''offshore'' = Inr (Fin (3 / 4))
   \<and> p_fate fate_example ''discard_alive'' ''coastal'' = Inr (Fin (3 / 10))"
  using p_fate_selection [of fate_example "''discard_alive''" "''coastal''"]
  unfolding fate_example_def
  by (simp add: table_eval_defs)

text \<open>
  Claim C5. Rows whose family is one of Dasyatidae, Mobulidae, Myliobatidae, Rajidae
  and Torpedinidae have no influence on \<open>p_fate\<close> or \<open>m_fate\<close>: two tables that
  agree on their other rows give the same result, value or error.
\<close>

theorem non_shark_rows_irrelevant:
  "(filter (\<lambda>r. family r \<notin> {''Dasyatidae'', ''Mobulidae'', ''Myliobatidae'', ''Rajidae'', ''Torpedinidae''}) fate_df
      = filter (\<lambda>r. family r \<notin> {''Dasyatidae'', ''Mobulidae'', ''Myliobatidae'', ''Rajidae'', ''Torpedinidae''}) fate_df'
    \<longrightarrow> p_fate fate_df fate domain = p_fate fate_df' fate domain)
   \<and> (filter (\<lambda>r. family r \<notin> {''Dasyatidae'', ''Mobulidae'', ''Myliobatidae'', ''Rajidae'', ''Torpedinidae''}) mortality_df
      = filter (\<lambda>r. family r \<notin> {''Dasyatidae'', ''Mobulidae'', ''Myliobatidae'', ''Rajidae'', ''Torpedinidae''}) mortality_df'
    \<longrightarrow> m_fate mortality_df fate domain = m_fate mortality_df' fate domain)"
  by (simp add: p_fate_def fate_probs_def fate_non_rfmo_shark_def m_fate_def post_release_probs_def
      shark_rows_def non_shark_families_def)

theorem non_shark_rows_irrelevant_witness:
  "p_fate (fate_row_of ''Rajidae'' ''Non-RFMO'' ''discard_dead'' 1000000 # fate_example) ''retained'' ''coastal''
     = p_fate fate_example ''retained'' ''coastal''
   \<and> m_fate (\<lparr>family = ''Mobulidae'', sample_size = 1000000, estimate_type = ''post-release mortality''\<rparr> # mortality_example)
        ''discard_alive'' ''coastal''
     = m_fate mortality_example ''discard_alive'' ''coastal''"
  using non_shark_rows_irrelevant
    [where fate_df = "fate_row_of ''Rajidae'' ''Non-RFMO'' ''discard_dead'' 1000000 # fate_example"
       and fate_df' = fate_example
       and mortality_df = "\<lparr>family = ''Mobulidae'', sample_size = 1000000, estimate_type = ''post-release mortality''\<rparr> # mortality_example"
       and mortality_df' = mortality_example
       and fate = "''retained''" and domain = "''coastal''"]
    non_shark_rows_irrelevant
    [where fate_df = "fate_row_of ''Rajidae'' ''Non-RFMO'' ''discard_dead'' 1000000 # fate_example"
       and fate_df' = fate_example
       and mortality_df = "\<lparr>family = ''Mobulidae'', sample_size = 1000000, estimate_type = ''post-release mortality''\<rparr> # mortality_example"
       and mortality_df' = mortality_example
       and fate = "''discard_alive''" and domain = "''coastal''"]
  by (simp add: fate_row_of_def)

text \<open>
  Claim C6. Where \<open>p_fate\<close> looks a group up by its name (\<open>retained_whole\<close> for
  \<open>retained\<close> and \<open>offshore\<close>; the fate itself in every call other than \<open>retained\<close>
  with \<open>coastal\<close> or \<open>offshore\<close>) and the normalised series has no group of that
  name, the call fails with the lookup error of that branch, \<open>KeyError\<close> or
  \<open>IndexError\<close>; so does the \<open>discard_alive\<close> branch of \<open>m_fate\<close> without a
  \<open>post-release mortality\<close> group. No value is returned in their place. (The branch
  for \<open>retained\<close> and \<open>coastal\<close> requests no name: it selects by position.)
\<close>

theorem missing_group_raises:
  "(''retained_whole'' \<notin> fst ` set (fate_probs fate_df ''offshore'') \<longrightarrow>
      p_fate fate_df ''retained'' ''offshore'' = Inl KeyError)
   \<and> (\<not> (fate = ''retained'' \<and> (domain = ''coastal'' \<or> domain = ''offshore''))
      \<and> fate \<notin> fst ` set (fate_probs fate_df domain) \<longrightarrow>
      p_fate fate_df fate domain = Inl IndexError)
   \<and> (''post-release mortality'' \<notin> fst ` set (post_release_probs mortality_df) \<longrightarrow>
      m_fate mortality_df ''discard_alive'' domain = Inl IndexError)"
  unfolding keys_fate_probs keys_post_release_probs
  by (simp add: p_fate_retained_offshore p_fate_by_name m_fate_discard_alive)

theorem missing_group_raises_witness:
  "p_fate two_fates ''retained'' ''offshore'' = Inl KeyError
   \<and> p_fate two_fates ''retained_whole'' ''coastal'' = Inl IndexError
   \<and> m_fate [\<lparr>family = ''Lamnidae'', sample_size = 85, estimate_type = ''other''\<rparr>] ''discard_alive'' ''coastal''
       = Inl IndexError"
  using missing_group_raises [of two_fates "''retained_whole''" "''coastal''"
          "[\<lparr>family = ''Lamnidae'', sample_size = 85, estimate_type = ''other''\<rparr>]"]
  unfolding two_fates_def
  by (simp add: table_eval_defs)

subsection \<open>Fewer than two groups\<close>

lemma single_group_mass:
  assumes "group_keys key df = [k]" and "sum_list (map val df) \<noteq> 0"
  shows "prob_mass key val df k = Fin 1"
proof -
  have "sum_list (map (group_total key val df) (group_keys key df)) = sum_list (map val df)"
    by (rule keys_total)
  then have "group_total key val df k = sum_list (map val df)"
    by (simp add: assms(1))
  then show ?thesis
    using assms(2) by (simp add: prob_mass_def fdiv_def)
qed

text \<open>
  Claim C10. When the coastal distribution has fewer than two groups, \<open>p_fate\<close> for
  \<open>retained\<close> and \<open>coastal\<close> raises nothing and returns the sum over all the groups
  there are: 0 when there is none, and 1 when there is one group and the total is
  not zero.
\<close>

theorem p_fate_few_groups:
  "(length (fate_probs df ''coastal'') < 2 \<longrightarrow>
      p_fate df ''retained'' ''coastal'' = Inr (series_sum (map snd (fate_probs df ''coastal''))))
   \<and> (fate_probs df ''coastal'' = [] \<longrightarrow> p_fate df ''retained'' ''coastal'' = Inr (Fin 0))
   \<and> (length (fate_probs df ''coastal'') = 1
      \<and> sum_list (map sample_size (fate_non_rfmo_shark df ''coastal'')) \<noteq> 0 \<longrightarrow>
      p_fate df ''retained'' ''coastal'' = Inr (Fin 1))"
proof -
  have a: "p_fate df ''retained'' ''coastal'' = Inr (series_sum (map snd (fate_probs df ''coastal'')))"
    if "length (fate_probs df ''coastal'') < 2"
    using that by (simp add: p_fate_def iloc_last2_short)
  have b: "p_fate df ''retained'' ''coastal'' = Inr (Fin 0)" if "fate_probs df ''coastal'' = []"
    using that by (simp add: p_fate_def iloc_last2_def series_sum_def)
  have c: "p_fate df ''retained'' ''coastal'' = Inr (Fin 1)"
    if len: "length (fate_probs df ''coastal'') = 1"
      and total: "sum_list (map sample_size (fate_non_rfmo_shark df ''coastal'')) \<noteq> 0"
  proof -
    let ?sel = "fate_non_rfmo_shark df ''coastal''"
    from len have "length (group_keys fate_type ?sel) = 1"
      by (simp add: fate_probs_alt)
    then obtain k where ks: "group_keys fate_type ?sel = [k]"
      by (cases "group_keys fate_type ?sel") auto
    show ?thesis
      by (simp add: p_fate_retained_coastal ks single_group_mass [OF ks total] series_sum_one)
  qed
  from a b c show ?thesis by blast
qed

theorem p_fate_few_groups_witness:
  "p_fate [] ''retained'' ''coastal'' = Inr (Fin 0)
   \<and> p_fate one_group ''retained'' ''coastal'' = Inr (Fin 1)"
  using p_fate_few_groups [of "[]"] p_fate_few_groups [of one_group]
  unfolding one_group_def
  by (simp add: table_eval_defs)

subsection \<open>The three fates of a domain together\<close>



















subsection \<open>A total sample size of zero\<close>

lemma group_total_zero:
  assumes "\<forall>r \<in> set df. 0 \<le> val r" and "sum_list (map val df) = 0"
  shows "group_total key val df k = 0"
proof -
  have "\<forall>v \<in> set (map val df). v = 0"
    using assms by (subst sum_list_nonneg_eq_0_iff [symmetric]) auto
  then have "\<forall>r \<in> set df. (if key r = k then val r else 0) = 0"
    by simp
  then show ?thesis
    unfolding group_total_def by (induction df) simp_all
qed

lemma prob_mass_NaN:
  assumes "\<forall>r \<in> set df. 0 \<le> val r" and "sum_list (map val df) = 0"
  shows "prob_mass key val df k = NaN"
  using group_total_zero [OF assms] assms(2) by (simp add: prob_mass_def fdiv_def)

lemma prob_masses_NaN:
  assumes "\<forall>r \<in> set df. 0 \<le> val r" and "sum_list (map val df) = 0"
  shows "map (prob_mass key val df) ks = map (\<lambda>k. NaN) ks"
  by (simp add: prob_mass_NaN [OF assms])

text \<open>
  Claim C7 as stated fails: with a single coastal shark row of sample size 0, the
  total is 0 and \<open>p_fate\<close> returns \<open>nan\<close> for the fate of that row; \<open>m_fate\<close>
  does the same for \<open>discard_alive\<close> on a \<open>post-release mortality\<close> row of size 0.
  Neither raises.
\<close>

theorem zero_total_counterexample:
  "sum_list (map sample_size (fate_non_rfmo_shark zero_fates ''coastal'')) = 0
   \<and> p_fate zero_fates ''discard_alive'' ''coastal'' = Inr NaN
   \<and> sum_list (map sample_size (shark_rows zero_mortality)) = 0
   \<and> m_fate zero_mortality ''discard_alive'' ''coastal'' = Inr NaN"
  unfolding zero_fates_def zero_mortality_def by (simp add: table_eval_defs)

text \<open>
  Claim C7, amended. When the filtered rows have non-negative sample sizes with a
  total of zero, the normalisation raises nothing and every group gets \<open>nan\<close>:
  \<open>p_fate\<close> returns \<open>nan\<close> wherever it looks up a group that is present, and 0 for
  \<open>retained\<close> and \<open>coastal\<close> (the sum leaves \<open>nan\<close> out); \<open>m_fate\<close> returns
  \<open>nan\<close> for \<open>discard_alive\<close> when the \<open>post-release mortality\<close> group is present.
\<close>

theorem zero_total_results:
  "((\<forall>r \<in> set (fate_non_rfmo_shark fate_df ''coastal''). 0 \<le> sample_size r)
      \<and> sum_list (map sample_size (fate_non_rfmo_shark fate_df ''coastal'')) = 0
    \<longrightarrow> p_fate fate_df ''retained'' ''coastal'' = Inr (Fin 0))
   \<and> ((\<forall>r \<in> set (fate_non_rfmo_shark fate_df ''offshore''). 0 \<le> sample_size r)
      \<and> sum_list (map sample_size (fate_non_rfmo_shark fate_df ''offshore'')) = 0
      \<and> ''retained_whole'' \<in> fst ` set (fate_probs fate_df ''offshore'')
    \<longrightarrow> p_fate fate_df ''retained'' ''offshore'' = Inr NaN)
   \<and> ((\<forall>r \<in> set (fate_non_rfmo_shark fate_df domain). 0 \<le> sample_size r)
      \<and> sum_list (map sample_size (fate_non_rfmo_shark fate_df domain)) = 0
      \<and> \<not> (fate = ''retained'' \<and> (domain = ''coastal'' \<or> domain = ''offshore''))
      \<and> fate \<in> fst ` set (fate_probs fate_df domain)
    \<longrightarrow> p_fate fate_df fate domain = Inr NaN)
   \<and> ((\<forall>r \<in> set (shark_rows mortality_df). 0 \<le> sample_size r)
      \<and> sum_list (map sample_size (shark_rows mortality_df)) = 0
      \<and> ''post-release mortality'' \<in> fst ` set (post_release_probs mortality_df)
    \<longrightarrow> m_fate mortality_df ''discard_alive'' domain = Inr NaN)"
proof -
  have a: "p_fate fate_df ''retained'' ''coastal'' = Inr (Fin 0)"
    if "\<forall>r \<in> set (fate_non_rfmo_shark fate_df ''coastal''). 0 \<le> sample_size r"
      and "sum_list (map sample_size (fate_non_rfmo_shark fate_df ''coastal'')) = 0"
    by (simp only: p_fate_retained_coastal prob_masses_NaN [OF that] series_sum_all_NaN)
  have b: "p_fate fate_df ''retained'' ''offshore'' = Inr NaN"
    if "\<forall>r \<in> set (fate_non_rfmo_shark fate_df ''offshore''). 0 \<le> sample_size r"
      and "sum_list (map sample_size (fate_non_rfmo_shark fate_df ''offshore'')) = 0"
      and "''retained_whole'' \<in> fst ` set (fate_probs fate_df ''offshore'')"
    using that(3) unfolding keys_fate_probs
    by (simp add: p_fate_retained_offshore prob_mass_NaN [OF that(1,2)])
  have c: "p_fate fate_df fate domain = Inr NaN"
    if "\<forall>r \<in> set (fate_non_rfmo_shark fate_df domain). 0 \<le> sample_size r"
      and "sum_list (map sample_size (fate_non_rfmo_shark fate_df domain)) = 0"
      and "\<not> (fate = ''retained'' \<and> (domain = ''coastal'' \<or> domain = ''offshore''))"
      and "fate \<in> fst ` set (fate_probs fate_df domain)"
    using that(4) unfolding keys_fate_probs
    by (simp add: p_fate_by_name [OF that(3)] prob_mass_NaN [OF that(1,2)])
  have d: "m_fate mortality_df ''discard_alive'' domain = Inr NaN"
    if "\<forall>r \<in> set (shark_rows mortality_df). 0 \<le> sample_size r"
      and "sum_list (map sample_size (shark_rows mortality_df)) = 0"
      and "''post-release mortality'' \<in> fst ` set (post_release_probs mortality_df)"
    using that(3) unfolding keys_post_release_probs
    by (simp add: m_fate_discard_alive prob_mass_NaN [OF that(1,2)])
  from a b c d show ?thesis by blast
qed

theorem zero_total_results_witness:
  "p_fate zero_fates ''retained'' ''coastal'' = Inr (Fin 0)
   \<and> p_fate zero_fates ''retained'' ''offshore'' = Inr NaN
   \<and> p_fate zero_fates ''discard_alive'' ''coastal'' = Inr NaN
   \<and> m_fate zero_mortality ''discard_alive'' ''coastal'' = Inr NaN"
  using zero_total_results [of zero_fates "''coastal''" "''discard_alive''" zero_mortality]
  unfolding zero_fates_def zero_mortality_def
  by (simp add: table_eval_defs)

end
